theory Spec2Isabelle
  imports Complex_Main
begin

section \<open>Data model\<close>

text \<open>
  A coordinate is a Python float. The model keeps the three kinds of non-finite value
  apart from the finite ones and computes on finite values exactly: rounding and
  overflow of binary64 are outside the model, as is the sign of zero.
\<close>

datatype coord = Fin real | PInf | NInf | NaN

fun isfinite :: "coord \<Rightarrow> bool" where
  "isfinite (Fin x) = True"
| "isfinite PInf = False"
| "isfinite NInf = False"
| "isfinite NaN = False"

type_synonym vertex = "coord \<times> coord \<times> coord"

text \<open>A face is a row of three \<open>int64\<close> vertex indices.\<close>

type_synonym face = "int \<times> int \<times> int"

datatype error =
    TypeError
  | IndexError
  | ValueError string
  | OSError
  | LibraryError string

record MeshStats =
  vertices :: int
  faces :: int
  bounds_min :: vertex
  bounds_max :: vertex
  extents :: vertex

text \<open>
  The part of a \<open>trimesh.Trimesh\<close> that the program reads and writes: the vertex array
  and the face array.
\<close>

record mesh =
  vertices :: "vertex list"
  faces :: "face list"

record ConvertOptions =
  merge_vertices :: bool
  validate_cleanup :: bool
  scale_factor :: coord
  center_to_origin :: bool
  swap_yz :: bool
  flip_x :: bool
  flip_y :: bool
  flip_z :: bool

section \<open>Array operations used by the passes\<close>

text \<open>
  Indexing an axis of length \<open>n\<close> with an integer: an index from \<open>-n\<close> up to \<open>-1\<close>
  counts from the end, an index outside \<open>-n .. n - 1\<close> raises \<open>IndexError\<close>.
\<close>

definition np_index :: "nat \<Rightarrow> int \<Rightarrow> error + nat" where
  "np_index n i =
     (if 0 \<le> i \<and> i < int n then Inr (nat i)
      else if - int n \<le> i \<and> i < 0 then Inr (nat (int n + i))
      else Inl IndexError)"

text \<open>\<open>xs[idx]\<close> for an integer index array \<open>idx\<close>.\<close>

fun np_take :: "'a list \<Rightarrow> int list \<Rightarrow> error + 'a list" where
  "np_take xs [] = Inr []"
| "np_take xs (i # idx) =
     (case np_index (length xs) i of
        Inl e \<Rightarrow> Inl e
      | Inr k \<Rightarrow> (case np_take xs idx of Inl e \<Rightarrow> Inl e | Inr ys \<Rightarrow> Inr (xs ! k # ys)))"

text \<open>\<open>xs[idx] = vals\<close> for an integer index array \<open>idx\<close>; a later entry wins.\<close>

fun np_put :: "'a list \<Rightarrow> int list \<Rightarrow> 'a list \<Rightarrow> error + 'a list" where
  "np_put xs [] vals = Inr xs"
| "np_put xs (i # idx) [] = Inl (ValueError ''shape mismatch'')"
| "np_put xs (i # idx) (v # vals) =
     (case np_index (length xs) i of
        Inl e \<Rightarrow> Inl e
      | Inr k \<Rightarrow> np_put (xs[k := v]) idx vals)"

text \<open>\<open>xs[mask]\<close> for a boolean mask of the same length.\<close>

definition np_select :: "bool list \<Rightarrow> 'a list \<Rightarrow> 'a list" where
  "np_select keep_mask xs = map snd (filter fst (zip keep_mask xs))"

text \<open>\<open>faces.reshape(-1)\<close> and the way back to rows of three.\<close>

definition flat :: "('a \<times> 'a \<times> 'a) list \<Rightarrow> 'a list" where
  "flat fs = concat (map (\<lambda>(a, b, c). [a, b, c]) fs)"

fun rows3 :: "'a list \<Rightarrow> ('a \<times> 'a \<times> 'a) list" where
  "rows3 (a # b # c # rest) = (a, b, c) # rows3 rest"
| "rows3 rest = []"

text \<open>\<open>xs[faces]\<close>: every index of every face looked up in \<open>xs\<close>.\<close>

definition np_take3 :: "'a list \<Rightarrow> face list \<Rightarrow> error + ('a \<times> 'a \<times> 'a) list" where
  "np_take3 xs fs = (case np_take xs (flat fs) of Inl e \<Rightarrow> Inl e | Inr ys \<Rightarrow> Inr (rows3 ys))"

text \<open>\<open>np.unique\<close> of a flat integer array: its distinct values, ascending.\<close>

definition np_unique :: "int list \<Rightarrow> int list" where
  "np_unique xs = sort (remdups xs)"

text \<open>\<open>np.sort(faces, axis=1)\<close> on one row.\<close>

definition sort3 :: "face \<Rightarrow> face" where
  "sort3 f = (case f of (a, b, c) \<Rightarrow>
     (case sort [a, b, c] of [x, y, z] \<Rightarrow> (x, y, z) | _ \<Rightarrow> f))"

section \<open>The library\<close>

text \<open>
  The cleanup asks the installed trimesh, with \<open>hasattr\<close>, which of its optional methods
  exist. A method that exists is a parameter of the model (\<open>Some f\<close>), a method that does
  not is \<open>None\<close>. A method mutates the mesh and returns nothing, or raises; here it
  returns the mesh it leaves behind, and a method that raises is taken to have left the
  mesh as it found it.
\<close>

datatype keep = KeepMask "bool list" | KeepIndex "int list"

record trimesh_lib =
  remove_infinite_values :: "(mesh \<Rightarrow> error + mesh) option"
  remove_degenerate_faces :: "(mesh \<Rightarrow> error + mesh) option"
  nondegenerate_faces :: "(mesh \<Rightarrow> error + keep option) option"
  remove_duplicate_faces :: "(mesh \<Rightarrow> error + mesh) option"
  remove_unreferenced_vertices :: "(mesh \<Rightarrow> error + mesh) option"
  fix_normals :: "(mesh \<Rightarrow> error + mesh) option"

text \<open>
  Modelled from the spec: \<open>Trimesh.update_faces(mask)\<close> is a method of the library, not
  of this repository; a pass "drops" the faces its mask rejects, so the method keeps
  the faces at which the mask is true, in their order. A boolean mask of another
  length than the face array cannot index it.
\<close>

definition update_faces :: "bool list \<Rightarrow> mesh \<Rightarrow> error + mesh" where
  "update_faces face_mask m =
     (if length face_mask \<noteq> length (faces m) then Inl IndexError
      else Inr (m\<lparr>faces := np_select face_mask (faces m)\<rparr>))"

section \<open>cleanup\_mesh\<close>

text \<open>\<open>try: body except Exception: pass\<close> around one pass.\<close>

definition attempt :: "(mesh \<Rightarrow> error + mesh) \<Rightarrow> mesh \<Rightarrow> mesh" where
  "attempt body m = (case body m of Inl e \<Rightarrow> m | Inr m' \<Rightarrow> m')"

subsection \<open>Pass 1: non-finite values\<close>

definition finite_row :: "vertex \<Rightarrow> bool" where
  "finite_row v = (case v of (x, y, z) \<Rightarrow> isfinite x \<and> isfinite y \<and> isfinite z)"

text \<open>
  \<open>new_index = -ones(n); new_index[finite_mask] = arange(finite_mask.sum())\<close>: the
  kept rows are numbered from \<open>k\<close> on, the others hold \<open>-1\<close>.
\<close>

fun renumber :: "bool list \<Rightarrow> int \<Rightarrow> int list" where
  "renumber [] k = []"
| "renumber (b # bs) k = (if b then k # renumber bs (k + 1) else (- 1) # renumber bs k)"

definition remove_infinite_fallback :: "mesh \<Rightarrow> error + mesh" where
  "remove_infinite_fallback m =
     (let v = vertices m;
          finite_mask = map finite_row v
      in if list_all id finite_mask then Inr m
         else
           let new_index = renumber finite_mask 0 in
           case np_take3 finite_mask (faces m) of
             Inl e \<Rightarrow> Inl e
           | Inr looked \<Rightarrow>
               let face_mask = map (\<lambda>(a, b, c). a \<and> b \<and> c) looked;
                   fs = np_select face_mask (faces m)
               in case np_take3 new_index fs of
                    Inl e \<Rightarrow> Inl e
                  | Inr fs' \<Rightarrow> Inr \<lparr>vertices = np_select finite_mask v, faces = fs'\<rparr>)"

definition pass_infinite :: "trimesh_lib \<Rightarrow> mesh \<Rightarrow> error + mesh" where
  "pass_infinite lib m =
     (case remove_infinite_values lib of
        Some f \<Rightarrow> f m
      | None \<Rightarrow> remove_infinite_fallback m)"

subsection \<open>Pass 2: degenerate faces\<close>

definition nondegenerate :: "face \<Rightarrow> bool" where
  "nondegenerate f = (case f of (a, b, c) \<Rightarrow> a \<noteq> b \<and> b \<noteq> c \<and> a \<noteq> c)"

definition remove_degenerate_fallback :: "mesh \<Rightarrow> error + mesh" where
  "remove_degenerate_fallback m = update_faces (map nondegenerate (faces m)) m"

definition pass_degenerate :: "trimesh_lib \<Rightarrow> mesh \<Rightarrow> error + mesh" where
  "pass_degenerate lib m =
     (case remove_degenerate_faces lib of
        Some f \<Rightarrow> f m
      | None \<Rightarrow>
          (case nondegenerate_faces lib of
             Some g \<Rightarrow>
               (case g m of
                  Inl e \<Rightarrow> Inl e
                | Inr None \<Rightarrow> Inr m
                | Inr (Some (KeepMask face_mask)) \<Rightarrow> update_faces face_mask m
                | Inr (Some (KeepIndex idx)) \<Rightarrow>
                    (case np_put (replicate (length (faces m)) False) idx
                            (replicate (length idx) True) of
                       Inl e \<Rightarrow> Inl e
                     | Inr face_mask \<Rightarrow> update_faces face_mask m))
           | None \<Rightarrow> remove_degenerate_fallback m))"

subsection \<open>Pass 3: duplicate faces\<close>

text \<open>
  \<open>np.unique(canonical_view, return_index=True)\<close> gives, for every distinct row, the
  index of its first occurrence. The indices come ordered by row value; they are only
  used to set the mask, so the model lists them by position.
\<close>

definition unique_index :: "'a list \<Rightarrow> nat list" where
  "unique_index rows = filter (\<lambda>i. rows ! i \<notin> set (take i rows)) [0..<length rows]"

definition remove_duplicate_fallback :: "mesh \<Rightarrow> error + mesh" where
  "remove_duplicate_fallback m =
     (let fs = faces m
      in if length fs > 0 then
           let canonical = map sort3 fs;
               unique_idx = unique_index canonical
           in case np_put (replicate (length fs) False) (map int unique_idx)
                     (replicate (length unique_idx) True) of
                Inl e \<Rightarrow> Inl e
              | Inr face_mask \<Rightarrow> update_faces face_mask m
         else Inr m)"

definition pass_duplicate :: "trimesh_lib \<Rightarrow> mesh \<Rightarrow> error + mesh" where
  "pass_duplicate lib m =
     (case remove_duplicate_faces lib of
        Some f \<Rightarrow> f m
      | None \<Rightarrow> remove_duplicate_fallback m)"

subsection \<open>Pass 4: unreferenced vertices\<close>

definition remove_unreferenced_fallback :: "mesh \<Rightarrow> error + mesh" where
  "remove_unreferenced_fallback m =
     (let fs = faces m;
          used = np_unique (flat fs)
      in case np_put (replicate (length (vertices m)) (- 1)) used
                (map int [0..<length used]) of
           Inl e \<Rightarrow> Inl e
         | Inr new_index \<Rightarrow>
             (case np_take (vertices m) used of
                Inl e \<Rightarrow> Inl e
              | Inr vs \<Rightarrow>
                  (case np_take3 new_index fs of
                     Inl e \<Rightarrow> Inl e
                   | Inr fs' \<Rightarrow> Inr \<lparr>vertices = vs, faces = fs'\<rparr>)))"

definition pass_unreferenced :: "trimesh_lib \<Rightarrow> mesh \<Rightarrow> error + mesh" where
  "pass_unreferenced lib m =
     (case remove_unreferenced_vertices lib of
        Some f \<Rightarrow> f m
      | None \<Rightarrow> remove_unreferenced_fallback m)"

subsection \<open>Pass 5: normals\<close>

definition pass_normals :: "trimesh_lib \<Rightarrow> mesh \<Rightarrow> error + mesh" where
  "pass_normals lib m =
     (case fix_normals lib of
        Some f \<Rightarrow> f m
      | None \<Rightarrow> Inr m)"

subsection \<open>The sequence\<close>


definition cleanup_mesh :: "trimesh_lib \<Rightarrow> mesh \<Rightarrow> error + mesh" where
  "cleanup_mesh lib mesh =
     (let m = mesh;
          m = attempt (pass_infinite lib) m;
          m = attempt (pass_degenerate lib) m;
          m = attempt (pass_duplicate lib) m;
          m = attempt (pass_unreferenced lib) m;
          m = attempt (pass_normals lib) m
      in Inr m)"

text \<open>An installation that has none of the optional methods: every pass runs the
  explicit algorithm of the source.\<close>

definition no_methods :: trimesh_lib where
  "no_methods =
     \<lparr>remove_infinite_values = None, remove_degenerate_faces = None,
      nondegenerate_faces = None, remove_duplicate_faces = None,
      remove_unreferenced_vertices = None, fix_normals = None\<rparr>"

subsection \<open>What the passes are compared with\<close>













section \<open>Float arithmetic\<close>

text \<open>
  Arithmetic on coordinates with the rules of IEEE 754 for the non-finite values and
  exact arithmetic on the finite ones.
\<close>

fun fneg :: "coord \<Rightarrow> coord" where
  "fneg (Fin x) = Fin (- x)"
| "fneg PInf = NInf"
| "fneg NInf = PInf"
| "fneg NaN = NaN"

fun fadd :: "coord \<Rightarrow> coord \<Rightarrow> coord" where
  "fadd NaN b = NaN"
| "fadd a NaN = NaN"
| "fadd (Fin x) (Fin y) = Fin (x + y)"
| "fadd PInf NInf = NaN"
| "fadd NInf PInf = NaN"
| "fadd PInf b = PInf"
| "fadd a PInf = PInf"
| "fadd NInf b = NInf"
| "fadd a NInf = NInf"

fun fmul :: "coord \<Rightarrow> coord \<Rightarrow> coord" where
  "fmul NaN b = NaN"
| "fmul a NaN = NaN"
| "fmul (Fin x) (Fin y) = Fin (x * y)"
| "fmul (Fin x) PInf = (if x = 0 then NaN else if 0 < x then PInf else NInf)"
| "fmul (Fin x) NInf = (if x = 0 then NaN else if 0 < x then NInf else PInf)"
| "fmul PInf (Fin y) = (if y = 0 then NaN else if 0 < y then PInf else NInf)"
| "fmul NInf (Fin y) = (if y = 0 then NaN else if 0 < y then NInf else PInf)"
| "fmul PInf PInf = PInf"
| "fmul NInf NInf = PInf"
| "fmul PInf NInf = NInf"
| "fmul NInf PInf = NInf"

fun np_minimum :: "coord \<Rightarrow> coord \<Rightarrow> coord" where
  "np_minimum NaN b = NaN"
| "np_minimum a NaN = NaN"
| "np_minimum NInf b = NInf"
| "np_minimum a NInf = NInf"
| "np_minimum PInf b = b"
| "np_minimum a PInf = a"
| "np_minimum (Fin x) (Fin y) = Fin (min x y)"

fun np_maximum :: "coord \<Rightarrow> coord \<Rightarrow> coord" where
  "np_maximum NaN b = NaN"
| "np_maximum a NaN = NaN"
| "np_maximum PInf b = PInf"
| "np_maximum a PInf = PInf"
| "np_maximum NInf b = b"
| "np_maximum a NInf = a"
| "np_maximum (Fin x) (Fin y) = Fin (max x y)"


text \<open>Rows of three, added, negated and scaled componentwise.\<close>

definition vadd :: "vertex \<Rightarrow> vertex \<Rightarrow> vertex" where
  "vadd u v = (case u of (x, y, z) \<Rightarrow> case v of (x', y', z') \<Rightarrow> (fadd x x', fadd y y', fadd z z'))"

definition vneg :: "vertex \<Rightarrow> vertex" where
  "vneg u = (case u of (x, y, z) \<Rightarrow> (fneg x, fneg y, fneg z))"

definition vsub :: "vertex \<Rightarrow> vertex \<Rightarrow> vertex" where
  "vsub u v = vadd u (vneg v)"

definition vscale :: "vertex \<Rightarrow> coord \<Rightarrow> vertex" where
  "vscale u s = (case u of (x, y, z) \<Rightarrow> (fmul x s, fmul y s, fmul z s))"

text \<open>\<open>min(axis=0)\<close> and \<open>max(axis=0)\<close> of one column; a NaN in the column is the result.\<close>

fun amin :: "coord list \<Rightarrow> coord" where
  "amin [] = NaN"
| "amin (x # xs) = fold np_minimum xs x"

fun amax :: "coord list \<Rightarrow> coord" where
  "amax [] = NaN"
| "amax (x # xs) = fold np_maximum xs x"

definition column :: "nat \<Rightarrow> vertex list \<Rightarrow> coord list" where
  "column k V = map (\<lambda>(x, y, z). if k = 0 then x else if k = 1 then y else z) V"

section \<open>Bounding box and statistics\<close>

text \<open>
  Modelled from the spec: \<open>Trimesh.bounds\<close> is a property of the library, not of this
  repository. The bounding box is the per-axis minimum and maximum over all vertex
  coordinates, and it is undefined for a mesh with zero vertices: the property is then
  \<open>None\<close>.
\<close>

definition bounds :: "mesh \<Rightarrow> (vertex \<times> vertex) option" where
  "bounds m =
     (let V = vertices m
      in if V = [] then None
         else Some ((amin (column 0 V), amin (column 1 V), amin (column 2 V)),
                    (amax (column 0 V), amax (column 1 V), amax (column 2 V))))"

text \<open>\<open>bounds[0]\<close> on \<open>None\<close> raises \<open>TypeError\<close>.\<close>

definition safe_mesh_stats :: "mesh \<Rightarrow> error + MeshStats" where
  "safe_mesh_stats mesh =
     (case bounds mesh of
        None \<Rightarrow> Inl TypeError
      | Some (b0, b1) \<Rightarrow>
          Inr \<lparr>MeshStats.vertices = int (length (vertices mesh)),
               MeshStats.faces = int (length (faces mesh)),
               bounds_min = b0,
               bounds_max = b1,
               extents = vsub b1 b0\<rparr>)"

section \<open>apply\_transforms\<close>

text \<open>
  Modelled from the spec: \<open>Trimesh.apply_translation\<close> is a method of the library; it
  translates all vertices by the given vector.
\<close>

definition apply_translation :: "vertex \<Rightarrow> mesh \<Rightarrow> mesh" where
  "apply_translation t m = m\<lparr>vertices := map (\<lambda>v. vadd v t) (vertices m)\<rparr>"

definition apply_transforms :: "mesh \<Rightarrow> ConvertOptions \<Rightarrow> error + mesh" where
  "apply_transforms mesh opt =
     (let m = mesh;
          V = vertices m;
          V = (if swap_yz opt then map (\<lambda>(x, y, z). (x, z, y)) V else V);
          V = (if flip_x opt then map (\<lambda>(x, y, z). (fmul x (Fin (- 1)), y, z)) V else V);
          V = (if flip_y opt then map (\<lambda>(x, y, z). (x, fmul y (Fin (- 1)), z)) V else V);
          V = (if flip_z opt then map (\<lambda>(x, y, z). (x, y, fmul z (Fin (- 1)))) V else V);
          V = (if scale_factor opt \<noteq> Fin 1 then map (\<lambda>v. vscale v (scale_factor opt)) V
               else V);
          m = m\<lparr>vertices := V\<rparr>
      in if center_to_origin opt then
           (case bounds m of
              None \<Rightarrow> Inl TypeError
            | Some (b0, b1) \<Rightarrow>
                let center = vscale (vadd b0 b1) (Fin (1 / 2))
                in Inr (apply_translation (vneg center) m))
         else Inr m)"

subsection \<open>What the transform is compared with\<close>








section \<open>Strings and paths\<close>








text \<open>
  A \<open>pathlib.Path\<close>, as far as the program looks at it: the folder it lies in and its
  final component. \<open>folder / candidate\<close> is the path with that folder and that name
  (a name is taken to hold no separator).
\<close>

record pypath =
  parent :: string
  name :: string



section \<open>\_build\_conversion\_list\<close>









subsection \<open>What the naming is compared with\<close>




section \<open>Loading\<close>

text \<open>What \<open>trimesh.load\<close> can return: a mesh, a scene of named geometries, something else.\<close>

datatype geometry = GeomTrimesh mesh | GeomOther

datatype loaded = LoadedTrimesh mesh | LoadedScene "geometry list" | LoadedOther

text \<open>
  Modelled from the spec: \<open>trimesh.util.concatenate\<close> is a function of the library. The
  vertex arrays are appended in encounter order, and the face indices of each
  sub-geometry are offset by the running vertex count.
\<close>

definition append_mesh :: "mesh \<Rightarrow> mesh \<Rightarrow> mesh" where
  "append_mesh acc g =
     (let n = int (length (vertices acc))
      in \<lparr>vertices = vertices acc @ vertices g,
          faces = faces acc @ map (\<lambda>(a, b, c). (a + n, b + n, c + n)) (faces g)\<rparr>)"

definition concatenate :: "mesh list \<Rightarrow> mesh" where
  "concatenate meshes = foldl append_mesh \<lparr>vertices = [], faces = []\<rparr> meshes"

definition load_stl_as_mesh :: "(pypath \<Rightarrow> error + loaded) \<Rightarrow> pypath \<Rightarrow> error + mesh" where
  "load_stl_as_mesh trimesh_load input_path =
     (case trimesh_load input_path of
        Inl e \<Rightarrow> Inl e
      | Inr (LoadedScene geometry) \<Rightarrow>
          if geometry = [] then
            Inl (ValueError ''STL loaded as a Scene but contains no geometry.'')
          else
            let meshes = concat (map (\<lambda>g. case g of GeomTrimesh m \<Rightarrow> [m] | GeomOther \<Rightarrow> [])
                                   geometry)
            in if meshes = [] then Inl (ValueError ''No mesh geometry found in the loaded scene.'')
               else Inr (concatenate meshes)
      | Inr (LoadedTrimesh m) \<Rightarrow> Inr m
      | Inr LoadedOther \<Rightarrow> Inl TypeError)"

section \<open>convert\_one\<close>

text \<open>
  The disk, as far as the worker writes it: the mesh exported to a path. What lies
  outside the repository is a parameter: the installed library, \<open>trimesh.load\<close> (which
  reads the disk), \<open>Trimesh.merge_vertices\<close>, whether a path can be written, and the
  float computation \<open>int((i / n) * 100)\<close> of the progress value.
\<close>

type_synonym disk = "pypath \<Rightarrow> mesh option"

record environment =
  trimesh :: trimesh_lib
  trimesh_load :: "disk \<Rightarrow> pypath \<Rightarrow> error + loaded"
  merge_vertices_method :: "mesh \<Rightarrow> error + mesh"
  writable :: "pypath \<Rightarrow> bool"
  percent :: "nat \<Rightarrow> nat \<Rightarrow> int"

text \<open>
  Modelled from the spec: \<open>output_path.parent.mkdir\<close> and \<open>Trimesh.export\<close> act on the
  file system. The mesh is written to the path, or an I/O or permission failure is
  raised and nothing is written.
\<close>

definition export :: "environment \<Rightarrow> mesh \<Rightarrow> pypath \<Rightarrow> disk \<Rightarrow> error + disk" where
  "export env mesh output_path d =
     (if writable env output_path then Inr (d(output_path \<mapsto> mesh)) else Inl OSError)"

text \<open>The result is the statistics or the exception, together with the disk left behind.\<close>

definition convert_one ::
    "environment \<Rightarrow> pypath \<Rightarrow> pypath \<Rightarrow> ConvertOptions \<Rightarrow> disk \<Rightarrow> (error + MeshStats) \<times> disk" where
  "convert_one env input_path output_path opt d =
     (case load_stl_as_mesh (trimesh_load env d) input_path of
        Inl e \<Rightarrow> (Inl e, d)
      | Inr mesh \<Rightarrow>
     (case (if merge_vertices opt then merge_vertices_method env mesh else Inr mesh) of
        Inl e \<Rightarrow> (Inl e, d)
      | Inr mesh \<Rightarrow>
     (case apply_transforms mesh opt of
        Inl e \<Rightarrow> (Inl e, d)
      | Inr mesh \<Rightarrow>
     (case (if validate_cleanup opt then cleanup_mesh (trimesh env) mesh else Inr mesh) of
        Inl e \<Rightarrow> (Inl e, d)
      | Inr mesh \<Rightarrow>
     (case export env mesh output_path d of
        Inl e \<Rightarrow> (Inl e, d)
      | Inr d' \<Rightarrow> (safe_mesh_stats mesh, d'))))))"

section \<open>ConvertWorker.run\<close>

text \<open>
  What the worker emits. A text that the source builds with an f-string is a
  constructor with the values it formats; a fixed text is the text.
\<close>

datatype message =
    Text string
  | Starting nat
  | Loading nat nat string
  | Exported string MeshStats
  | Traceback error
  | Converted nat
  | Failed error

datatype signal = Log message | Progress int | Done bool message

text \<open>
  The \<open>for\<close> loop from job number \<open>i\<close> on. \<open>cancel i\<close> is the value of \<open>self._cancel\<close> that
  the worker reads at the top of the iteration for job \<open>i\<close>, its only read of the flag;
  the other thread may set the flag at any time. An exception of a job ends up in the
  \<open>except\<close> clause around the whole method.
\<close>

fun convert_jobs ::
    "environment \<Rightarrow> ConvertOptions \<Rightarrow> (nat \<Rightarrow> bool) \<Rightarrow> nat \<Rightarrow> nat \<Rightarrow> (pypath \<times> pypath) list \<Rightarrow>
     disk \<Rightarrow> signal list \<times> disk" where
  "convert_jobs env opt cancel n i [] d = ([Done True (Converted n)], d)"
| "convert_jobs env opt cancel n i ((inp, outp) # rest) d =
     (if cancel i then
        ([Log (Text ''Cancelled.''), Done False (Text ''Cancelled by user.'')], d)
      else
        (case convert_one env inp outp opt d of
           (Inl e, d') \<Rightarrow>
             ([Log (Loading i n (name inp)), Log (Traceback e), Done False (Failed e)], d')
         | (Inr stats, d') \<Rightarrow>
             (case convert_jobs env opt cancel n (i + 1) rest d' of
                (signals, d'') \<Rightarrow>
                  (Log (Loading i n (name inp)) # Log (Exported (name outp) stats) #
                   Progress (percent env i n) # signals, d''))))"

definition run ::
    "environment \<Rightarrow> ConvertOptions \<Rightarrow> (nat \<Rightarrow> bool) \<Rightarrow> (pypath \<times> pypath) list \<Rightarrow> disk \<Rightarrow>
     signal list \<times> disk" where
  "run env opt cancel items d =
     (let n = length items
      in if n = 0 then ([Done False (Text ''No files to convert.'')], d)
         else
           (case convert_jobs env opt cancel n 1 items d of
              (signals, d') \<Rightarrow> (Log (Starting n) # Progress 0 # signals, d')))"

subsection \<open>What the worker is compared with\<close>

text \<open>
  The disk after the given jobs have all been converted, one after the other; \<open>None\<close>
  when one of them raises.
\<close>

fun disk_after ::
    "environment \<Rightarrow> ConvertOptions \<Rightarrow> (pypath \<times> pypath) list \<Rightarrow> disk \<Rightarrow> disk option" where
  "disk_after env opt [] d = Some d"
| "disk_after env opt ((inp, outp) # rest) d =
     (case convert_one env inp outp opt d of
        (Inl e, d') \<Rightarrow> None
      | (Inr stats, d') \<Rightarrow> disk_after env opt rest d')"

text \<open>The log line that opens the attempt of a job, and the terminal notification.\<close>

fun is_loading :: "signal \<Rightarrow> bool" where
  "is_loading (Log (Loading i n file)) = True"
| "is_loading s = False"

fun is_done :: "signal \<Rightarrow> bool" where
  "is_done (Done ok msg) = True"
| "is_done s = False"

text \<open>
  An environment for the examples: no optional library method, every file loads as one
  triangle or as a mesh without vertices, every path can be written.
\<close>

definition triangle :: mesh where
  "triangle =
     \<lparr>vertices = [(Fin 0, Fin 0, Fin 0), (Fin 1, Fin 0, Fin 0), (Fin 0, Fin 1, Fin 0)],
      faces = [(0, 1, 2)]\<rparr>"

definition plain_env :: "mesh \<Rightarrow> environment" where
  "plain_env m =
     \<lparr>trimesh = no_methods,
      trimesh_load = (\<lambda>d p. Inr (LoadedTrimesh m)),
      merge_vertices_method = Inr,
      writable = (\<lambda>p. True),
      percent = (\<lambda>i n. int (i * 100 div n))\<rparr>"

definition plain_options :: ConvertOptions where
  "plain_options =
     \<lparr>merge_vertices = False, validate_cleanup = False, scale_factor = Fin 1,
      center_to_origin = False, swap_yz = False, flip_x = False, flip_y = False,
      flip_z = False\<rparr>"

definition stl :: "string \<Rightarrow> pypath" where
  "stl s = \<lparr>parent = ''in'', name = s @ ''.stl''\<rparr>"

definition obj :: "string \<Rightarrow> pypath" where
  "obj s = \<lparr>parent = ''out'', name = s @ ''.obj''\<rparr>"


definition triangle_stats :: MeshStats where
  "triangle_stats =
     \<lparr>MeshStats.vertices = 3, MeshStats.faces = 1,
      bounds_min = (Fin 0, Fin 0, Fin 0), bounds_max = (Fin 1, Fin 1, Fin 0),
      extents = (Fin 1, Fin 1, Fin 0)\<rparr>"

definition three_jobs :: "(pypath \<times> pypath) list" where
  "three_jobs = [(stl ''a'', obj ''a''), (stl ''b'', obj ''b''), (stl ''c'', obj ''c'')]"

section \<open>Properties of the array operations\<close>








section \<open>The degenerate-face pass\<close>






section \<open>The duplicate-face pass\<close>


lemma sort3_sorted:
  "sort3 (a, b, c) = (x, y, z) \<Longrightarrow>
   x \<le> y \<and> y \<le> z \<and>
   (x, y, z) \<in> {(a, b, c), (a, c, b), (b, a, c), (b, c, a), (c, a, b), (c, b, a)}"
  by (auto simp: sort3_def split: if_splits)











section \<open>The pass sequence\<close>






section \<open>Cleanup of an already clean mesh\<close>
















section \<open>The transform\<close>






















section \<open>Output naming\<close>





subsection \<open>Decimal numerals are injective\<close>









subsection \<open>The loop over the jobs\<close>













section \<open>Custom naming\<close>







section \<open>The batch worker\<close>

text \<open>
  Claim C9. Started on an empty job list, the worker emits the failed terminal
  notification with the text "No files to convert." and nothing else: no log line, no
  progress value, no job, and the disk is as it was.
\<close>

theorem run_empty_job_list:
  "run env opt cancel [] d = ([Done False (Text ''No files to convert.'')], d)"
  by (simp add: run_def)


lemma convert_one_writes:
  assumes "convert_one env inp outp opt d = (Inr stats, d')"
  shows "\<exists>m. d' = d(outp \<mapsto> m)"
  using assms
  by (auto simp: convert_one_def export_def split: sum.splits if_splits)

lemma disk_after_dom:
  assumes "disk_after env opt jobs d = Some d'"
  shows "dom d \<subseteq> dom d' \<and> (\<forall>job\<in>set jobs. snd job \<in> dom d')"
  using assms
proof (induction jobs arbitrary: d)
  case Nil
  then show ?case by simp
next
  case (Cons job jobs)
  obtain inp outp where job: "job = (inp, outp)" by (cases job)
  from Cons.prems obtain stats d1
    where c: "convert_one env inp outp opt d = (Inr stats, d1)"
      and rest: "disk_after env opt jobs d1 = Some d'"
    unfolding job by (auto split: prod.splits sum.splits)
  from convert_one_writes [OF c] obtain m where d1: "d1 = d(outp \<mapsto> m)" by blast
  from Cons.IH [OF rest] have sub: "dom d1 \<subseteq> dom d'"
    and others: "\<forall>job\<in>set jobs. snd job \<in> dom d'"
    by simp_all
  from d1 have "outp \<in> dom d1" and "dom d \<subseteq> dom d1" by auto
  with sub have "outp \<in> dom d'" and "dom d \<subseteq> dom d'" by blast+
  with others show ?case unfolding job by simp
qed

lemma convert_jobs_cancelled:
  assumes "k < length items"
    and "\<forall>j. i \<le> j \<and> j < i + k \<longrightarrow> \<not> cancel j"
    and "cancel (i + k)"
    and "disk_after env opt (take k items) d = Some d'"
  shows "\<exists>pre. convert_jobs env opt cancel n i items d
           = (pre @ [Log (Text ''Cancelled.''), Done False (Text ''Cancelled by user.'')], d') \<and>
         length (filter is_loading pre) = k \<and> \<not> list_ex is_done pre"
  using assms
proof (induction k arbitrary: i items d)
  case 0
  then obtain job rest where "items = job # rest" by (cases items) auto
  moreover obtain inp outp where "job = (inp, outp)" by (cases job)
  ultimately show ?case using 0 by simp
next
  case (Suc k)
  then obtain job rest where items: "items = job # rest" by (cases items) auto
  obtain inp outp where job: "job = (inp, outp)" by (cases job)
  from Suc.prems(2) have nc: "\<not> cancel i" by simp
  from Suc.prems(4) obtain stats d1
    where c: "convert_one env inp outp opt d = (Inr stats, d1)"
      and rest: "disk_after env opt (take k rest) d1 = Some d'"
    unfolding items job by (auto split: prod.splits sum.splits)
  have "\<exists>pre. convert_jobs env opt cancel n (i + 1) rest d1
           = (pre @ [Log (Text ''Cancelled.''), Done False (Text ''Cancelled by user.'')], d') \<and>
         length (filter is_loading pre) = k \<and> \<not> list_ex is_done pre"
  proof (rule Suc.IH [OF _ _ _ rest])
    show "k < length rest" using Suc.prems(1) items by simp
    show "\<forall>j. i + 1 \<le> j \<and> j < i + 1 + k \<longrightarrow> \<not> cancel j" using Suc.prems(2) by simp
    show "cancel (i + 1 + k)" using Suc.prems(3) by simp
  qed
  then obtain pre where pre: "convert_jobs env opt cancel n (i + 1) rest d1
           = (pre @ [Log (Text ''Cancelled.''), Done False (Text ''Cancelled by user.'')], d')"
    and cnt: "length (filter is_loading pre) = k" and nd: "\<not> list_ex is_done pre"
    by blast
  let ?pre = "Log (Loading i n (name inp)) # Log (Exported (name outp) stats) #
                   Progress (percent env i n) # pre"
  have "convert_jobs env opt cancel n i items d
           = (?pre @ [Log (Text ''Cancelled.''), Done False (Text ''Cancelled by user.'')], d')"
    unfolding items job using nc c pre by simp
  moreover have "length (filter is_loading ?pre) = Suc k" using cnt by simp
  moreover have "\<not> list_ex is_done ?pre" using nd by simp
  ultimately show ?case by blast
qed

text \<open>
  Claim C4. The worker reads the cancellation flag once per job, before it starts the
  job. When the flag is first seen set before job \<open>k + 1\<close>, the first \<open>k\<close> jobs having been
  converted, the worker emits the log line "Cancelled." and the terminal notification
  (not successful, "Cancelled by user.") and stops: these are its last two signals,
  there is no other terminal notification, exactly \<open>k\<close> jobs were started, and the disk
  is the one the first \<open>k\<close> jobs left, with each of their outputs on it.
\<close>

theorem cancellation_at_job_boundary:
  assumes "k < length items"
    and "\<forall>j. 1 \<le> j \<and> j \<le> k \<longrightarrow> \<not> cancel j"
    and "cancel (k + 1)"
    and "disk_after env opt (take k items) d = Some d'"
  shows "snd (run env opt cancel items d) = d' \<and>
         (\<exists>pre. fst (run env opt cancel items d)
                  = pre @ [Log (Text ''Cancelled.''), Done False (Text ''Cancelled by user.'')] \<and>
                length (filter is_loading pre) = k \<and> \<not> list_ex is_done pre) \<and>
         (\<forall>job\<in>set (take k items). snd job \<in> dom d') \<and> dom d \<subseteq> dom d'"
proof -
  have "\<forall>j. 1 \<le> j \<and> j < 1 + k \<longrightarrow> \<not> cancel j" using assms(2) by simp
  moreover have "cancel (1 + k)" using assms(3) by simp
  ultimately obtain pre
    where pre: "convert_jobs env opt cancel (length items) 1 items d
           = (pre @ [Log (Text ''Cancelled.''), Done False (Text ''Cancelled by user.'')], d')"
      and cnt: "length (filter is_loading pre) = k" and nd: "\<not> list_ex is_done pre"
    using convert_jobs_cancelled [OF assms(1) _ _ assms(4), of 1 cancel "length items"] by blast
  let ?pre = "Log (Starting (length items)) # Progress 0 # pre"
  from assms(1) have ne: "length items \<noteq> 0" by (cases items) simp_all
  have r: "run env opt cancel items d
      = (?pre @ [Log (Text ''Cancelled.''), Done False (Text ''Cancelled by user.'')], d')"
    using ne pre by (simp add: run_def Let_def)
  have "length (filter is_loading ?pre) = k" "\<not> list_ex is_done ?pre"
    using cnt nd by simp_all
  with r have "\<exists>pre. fst (run env opt cancel items d)
                  = pre @ [Log (Text ''Cancelled.''), Done False (Text ''Cancelled by user.'')] \<and>
                length (filter is_loading pre) = k \<and> \<not> list_ex is_done pre"
    by (intro exI [of _ ?pre]) simp
  moreover from r have "snd (run env opt cancel items d) = d'" by simp
  moreover from disk_after_dom [OF assms(4)]
  have "(\<forall>job\<in>set (take k items). snd job \<in> dom d') \<and> dom d \<subseteq> dom d'" by simp
  ultimately show ?thesis by simp
qed


lemma apply_transforms_plain: "apply_transforms m plain_options = Inr m"
  by (simp add: apply_transforms_def plain_options_def)

lemma convert_one_plain:
  "convert_one (plain_env m) inp outp plain_options d = (safe_mesh_stats m, d(outp \<mapsto> m))"
  by (simp add: convert_one_def plain_env_def load_stl_as_mesh_def apply_transforms_plain
      export_def) (simp add: plain_options_def)

lemma safe_mesh_stats_triangle: "safe_mesh_stats triangle = Inr triangle_stats"
  by (simp add: safe_mesh_stats_def bounds_def triangle_def triangle_stats_def column_def
      vsub_def vadd_def vneg_def Let_def)


text \<open>
  Three jobs, the flag set while job 1 runs: job 1 is finished and its output is on
  disk, jobs 2 and 3 are not attempted.
\<close>

theorem cancellation_witness:
  "\<not> (\<lambda>i. 2 \<le> i) (1::nat) \<and> (\<lambda>i. 2 \<le> i) (1 + 1 :: nat) \<and>
   disk_after (plain_env triangle) plain_options (take 1 three_jobs) Map.empty
     = Some [obj ''a'' \<mapsto> triangle] \<and>
   snd (run (plain_env triangle) plain_options (\<lambda>i. 2 \<le> i) three_jobs Map.empty)
     = [obj ''a'' \<mapsto> triangle] \<and>
   snd (run (plain_env triangle) plain_options (\<lambda>i. 2 \<le> i) three_jobs Map.empty) (obj ''b'')
     = None \<and>
   snd (run (plain_env triangle) plain_options (\<lambda>i. 2 \<le> i) three_jobs Map.empty) (obj ''c'')
     = None \<and>
   fst (run (plain_env triangle) plain_options (\<lambda>i. 2 \<le> i) three_jobs Map.empty)
     = [Log (Starting 3), Progress 0, Log (Loading 1 3 ''a.stl''),
        Log (Exported ''a.obj'' triangle_stats), Progress 33,
        Log (Text ''Cancelled.''), Done False (Text ''Cancelled by user.'')]"
proof -
  let ?cancel = "\<lambda>i::nat. 2 \<le> i"
  have k: "1 < length three_jobs" by (simp add: three_jobs_def)
  have before: "\<forall>j. 1 \<le> j \<and> j \<le> 1 \<longrightarrow> \<not> ?cancel j" by simp
  have at: "?cancel (1 + 1)" by simp
  have disk: "disk_after (plain_env triangle) plain_options (take 1 three_jobs) Map.empty
     = Some [obj ''a'' \<mapsto> triangle]"
    by (simp add: three_jobs_def convert_one_plain safe_mesh_stats_triangle)
  from cancellation_at_job_boundary [OF k before at disk]
  have final: "snd (run (plain_env triangle) plain_options ?cancel three_jobs Map.empty)
     = [obj ''a'' \<mapsto> triangle]"
    by simp
  have signals: "fst (run (plain_env triangle) plain_options ?cancel three_jobs Map.empty)
     = [Log (Starting 3), Progress 0, Log (Loading 1 3 ''a.stl''),
        Log (Exported ''a.obj'' triangle_stats), Progress 33,
        Log (Text ''Cancelled.''), Done False (Text ''Cancelled by user.'')]"
    by (simp add: run_def three_jobs_def convert_one_plain safe_mesh_stats_triangle stl_def
        obj_def) (simp add: plain_env_def)
  have "[obj ''a'' \<mapsto> triangle] (obj ''b'') = None" "[obj ''a'' \<mapsto> triangle] (obj ''c'') = None"
    by (simp_all add: obj_def)
  with final disk signals show ?thesis by simp
qed

section \<open>Statistics of a mesh without vertices\<close>




end
